theory Spec2Isabelle
  imports Main
begin

section \<open>The navigation shifter of ChromeVox (navigation\_shifter.js)\<close>

text \<open>
  \<open>cvox.NavigationShifter\<close> delegates every navigation call to one of nine walker
  objects and keeps the state that decides which one: the index of the current
  granularity, the subnavigation flag, and the table and math mode flags. The walkers,
  \<open>cvox.DomUtil\<close> and \<open>cvox.CursorSelection\<close> live in other files; what the shifter
  asks of them is collected in an environment record, and every function of the
  shifter takes the state and gives the new state back.
\<close>

subsection \<open>Values\<close>

type_synonym node = nat

text \<open>
  Modelled from the spec: \<open>cvox.CursorSelection\<close> is not part of the sources at hand.
  A selection is a cursor range with a start anchor, an end anchor and a flag for
  its direction; only the nodes of the anchors are kept.
\<close>

record selection =
  start_node :: node
  end_node :: node
  reversed :: bool

text \<open>
  Modelled from the spec: \<open>cvox.CursorSelection.fromNode\<close> builds the selection at one
  node and gives null for a null node (\<open>tryExitMath\<close> tests its result before use);
  \<open>setReversed\<close> sets the direction.
\<close>

definition CursorSelection_fromNode :: "node option \<Rightarrow> selection option" where
  "CursorSelection_fromNode n =
     (case n of
        None \<Rightarrow> None
      | Some x \<Rightarrow> Some \<lparr>start_node = x, end_node = x, reversed = False\<rparr>)"

definition setReversed :: "bool \<Rightarrow> selection \<Rightarrow> selection" where
  "setReversed r sel = sel\<lparr>reversed := r\<rparr>"

text \<open>
  The nine walker objects that \<open>reset_\<close> creates. The shifter compares them by
  identity only (\<open>currentWalker_ == tableWalker_\<close>), so each object is a constant.
\<close>

datatype walker =
  CharacterWalker | WordWalker | LineWalker | SentenceWalker | ObjectWalker
  | GroupWalker | VisualWalker | TableWalker | MathWalker

text \<open>Calling a method on \<open>undefined\<close> throws a TypeError.\<close>

datatype error = TypeError

record kwargs =
  force :: bool
  fromTop :: bool

text \<open>\<open>cvox.NavigationShifter.GRANULARITIES\<close>.\<close>

definition CHARACTER :: int where "CHARACTER = 0"
definition WORD :: int where "WORD = 1"
definition LINE :: int where "LINE = 2"
definition SENTENCE :: int where "SENTENCE = 3"
definition OBJECT :: int where "OBJECT = 4"
definition GROUP :: int where "GROUP = 5"
definition VISUAL :: int where "VISUAL = 6"

text \<open>
  A granularity is a JavaScript number that is used as an array index. It is an
  integer here, or \<open>None\<close> for a value that is no number (\<open>undefined\<close>, as read from
  a store without the key, and \<open>NaN\<close>, which arithmetic makes of it); fractions are
  left out. \<open>NaN\<close> goes through subtraction, addition, \<open>Math.max\<close> and \<open>Math.min\<close>
  unchanged.
\<close>

type_synonym number = "int option"

definition js_minus :: "number \<Rightarrow> int \<Rightarrow> number" where
  "js_minus x k = map_option (\<lambda>i. i - k) x"

definition js_plus :: "number \<Rightarrow> int \<Rightarrow> number" where
  "js_plus x k = map_option (\<lambda>i. i + k) x"

definition Math_max :: "number \<Rightarrow> int \<Rightarrow> number" where
  "Math_max x k = map_option (\<lambda>i. max i k) x"

definition Math_min :: "number \<Rightarrow> int \<Rightarrow> number" where
  "Math_min x k = map_option (\<lambda>i. min i k) x"

text \<open>
  The array \<open>walkers_\<close>. Reading outside the array, or at no number, gives
  \<open>undefined\<close>; writing at an index beyond the end lengthens the array and leaves
  holes. The shifter writes at the index GROUP only.
\<close>

definition array_get :: "walker option list \<Rightarrow> number \<Rightarrow> walker option" where
  "array_get ws i =
     (case i of
        None \<Rightarrow> None
      | Some k \<Rightarrow> if 0 \<le> k \<and> k < int (length ws) then ws ! nat k else None)"

definition array_set :: "walker option list \<Rightarrow> int \<Rightarrow> walker \<Rightarrow> walker option list" where
  "array_set ws k w =
     (if nat k < length ws then ws[nat k := Some w]
      else ws @ replicate (nat k - length ws) None @ [Some w])"

fun indexOf :: "walker option list \<Rightarrow> walker \<Rightarrow> int" where
  "indexOf [] w = - 1"
| "indexOf (x # xs) w =
     (if x = Some w then 0
      else (let r = indexOf xs w in if r < 0 then - 1 else r + 1))"

subsection \<open>The environment\<close>

text \<open>
  What the shifter calls outside its own file: the tree queries of \<open>cvox.DomUtil\<close>,
  the methods of the walkers, and the math walker's own state of type \<open>'m\<close>, which
  the shifter never reads but changes through \<open>reset\<close>, \<open>cycleDomain\<close>,
  \<open>cycleTraversalMode\<close>, \<open>toggleExplore\<close> and \<open>setSavedGranularity\<close>. The traversal
  state of the other walkers is not followed: a delegated call gives the result the
  environment names for that walker and argument.
\<close>

record 'm env =
  DomUtil_getContainingTable :: "node \<Rightarrow> node option"
  DomUtil_isLayoutTable :: "node \<Rightarrow> bool"
  DomUtil_getContainingMath :: "node \<Rightarrow> node option"
  DomUtil_directedNextLeafNode :: "node \<Rightarrow> bool \<Rightarrow> node option"
  DomUtil_hasContent :: "node \<Rightarrow> bool"
  DomUtil_countFocusableDescendants :: "node \<Rightarrow> nat"
  Walker_next :: "walker \<Rightarrow> selection \<Rightarrow> selection option"
  Walker_sync :: "walker \<Rightarrow> selection option \<Rightarrow> selection option"
  Walker_act :: "walker \<Rightarrow> selection \<Rightarrow> bool"
  Walker_syncToPageBeginning :: "walker \<Rightarrow> bool \<Rightarrow> selection"
  TableWalker_goToFirstCell :: "selection \<Rightarrow> selection option"
  MathWalker_isInMath :: "selection \<Rightarrow> bool"
  MathWalker_new :: 'm
  MathWalker_reset :: "'m \<Rightarrow> 'm"
  MathWalker_cycleDomain :: "'m \<Rightarrow> 'm"
  MathWalker_cycleTraversalMode :: "'m \<Rightarrow> 'm"
  MathWalker_toggleExplore :: "'m \<Rightarrow> 'm"
  MathWalker_setSavedGranularity :: "number \<Rightarrow> 'm \<Rightarrow> 'm"

subsection \<open>The state of the shifter\<close>

text \<open>
  The fields of \<open>this\<close>. A name that ends in an underscore in the source ends in a
  prime here: \<open>isTableMode'\<close> is the field \<open>isTableMode_\<close>, and \<open>isTableMode\<close>
  is the public method.
\<close>

record 'm shifter =
  isSubnavigating' :: bool
  isTableMode' :: bool
  isMathMode' :: bool
  mathWalker' :: 'm
  walkers' :: "walker option list"
  currentWalkerIndex' :: number
  currentWalker' :: "walker option"

text \<open>\<open>reset'\<close>, which is all the constructor does.\<close>

definition reset' :: "'m env \<Rightarrow> 'm shifter" where
  "reset' env =
     (let ws = [Some CharacterWalker, Some WordWalker, Some LineWalker,
                Some SentenceWalker, Some ObjectWalker, Some GroupWalker,
                Some VisualWalker];
          i = Some (indexOf ws GroupWalker)
      in \<lparr>isSubnavigating' = False, isTableMode' = False, isMathMode' = False,
          mathWalker' = MathWalker_new env, walkers' = ws,
          currentWalkerIndex' = i, currentWalker' = array_get ws i\<rparr>)"

definition NavigationShifter :: "'m env \<Rightarrow> 'm shifter" where
  "NavigationShifter env = reset' env"

subsection \<open>Granularity and subnavigation\<close>

text \<open>
  \<open>ensureNotSubnavigating\<close> calls \<open>makeLessGranular\<close>, which calls
  \<open>ensureNotSubnavigating\<close> again; the flag is cleared before the inner call, so
  the recursion ends there.
\<close>

function ensureNotSubnavigating :: "'m shifter \<Rightarrow> 'm shifter"
  and makeLessGranular :: "'m shifter \<Rightarrow> 'm shifter" where
  "ensureNotSubnavigating s =
     (if isSubnavigating' s = True
      then makeLessGranular (s\<lparr>isSubnavigating' := False\<rparr>)
      else s)"
| "makeLessGranular s =
     (let s1 = ensureNotSubnavigating s;
          s2 = s1\<lparr>currentWalkerIndex' :=
                   Math_min (js_plus (currentWalkerIndex' s1) 1)
                            (int (length (walkers' s1)) - 1)\<rparr>
      in s2\<lparr>currentWalker' := array_get (walkers' s2) (currentWalkerIndex' s2)\<rparr>)"
  by pat_completeness auto
termination
  by (relation "measure (\<lambda>x. case x of
          Inl s \<Rightarrow> (if isSubnavigating' s then 2 else 0)
        | Inr s \<Rightarrow> (if isSubnavigating' s then 3 else 1))") auto

declare ensureNotSubnavigating.simps [simp del]
declare makeLessGranular.simps [simp del]

definition makeMoreGranular :: "'m shifter \<Rightarrow> 'm shifter" where
  "makeMoreGranular s =
     (let s1 = ensureNotSubnavigating s;
          s2 = s1\<lparr>currentWalkerIndex' :=
                   Math_max (js_minus (currentWalkerIndex' s1) 1) 0\<rparr>
      in s2\<lparr>currentWalker' := array_get (walkers' s2) (currentWalkerIndex' s2)\<rparr>)"

definition setGranularity :: "number \<Rightarrow> 'm shifter \<Rightarrow> 'm shifter" where
  "setGranularity granularity s =
     (let s1 = ensureNotSubnavigating s;
          s2 = s1\<lparr>currentWalkerIndex' := granularity\<rparr>
      in s2\<lparr>currentWalker' := array_get (walkers' s2) (currentWalkerIndex' s2)\<rparr>)"

definition ensureSubnavigating :: "'m shifter \<Rightarrow> 'm shifter" where
  "ensureSubnavigating s =
     (if isSubnavigating' s = False
      then (makeMoreGranular s)\<lparr>isSubnavigating' := True\<rparr>
      else s)"

definition isSubnavigating :: "'m shifter \<Rightarrow> bool" where
  "isSubnavigating s = isSubnavigating' s"

text \<open>\<open>getGranularity\<close> gives the number it read and the state it leaves.\<close>

definition getGranularity :: "'m shifter \<Rightarrow> number \<times> 'm shifter" where
  "getGranularity s =
     (let wasSubnavigating = isSubnavigating s;
          s1 = ensureNotSubnavigating s;
          ret = currentWalkerIndex' s1;
          s2 = (if wasSubnavigating then ensureSubnavigating s1 else s1)
      in (ret, s2))"

subsection \<open>Delegation to the current walker\<close>

text \<open>
  \<open>next\<close>, \<open>sync\<close> and \<open>act\<close> call a method of \<open>currentWalker_\<close>, which is
  \<open>undefined\<close> when the index is outside the array. \<open>sync\<close> is also called with a
  selection that may be null (in \<open>syncNode\<close>).
\<close>

definition "next" :: "'m env \<Rightarrow> 'm shifter \<Rightarrow> selection \<Rightarrow> error + selection option" where
  "next env s sel =
     (case currentWalker' s of
        None \<Rightarrow> Inl TypeError
      | Some w \<Rightarrow> Inr (Walker_next env w sel))"

definition sync :: "'m env \<Rightarrow> 'm shifter \<Rightarrow> selection option \<Rightarrow> error + selection option" where
  "sync env s sel =
     (case currentWalker' s of
        None \<Rightarrow> Inl TypeError
      | Some w \<Rightarrow> Inr (Walker_sync env w sel))"

definition act :: "'m env \<Rightarrow> 'm shifter \<Rightarrow> selection \<Rightarrow> error + bool" where
  "act env s sel =
     (case currentWalker' s of
        None \<Rightarrow> Inl TypeError
      | Some w \<Rightarrow> Inr (Walker_act env w sel))"

subsection \<open>Table mode\<close>

definition isTableMode :: "'m shifter \<Rightarrow> bool" where
  "isTableMode s = (isTableMode' s \<and> currentWalker' s = Some TableWalker)"

definition ensureTableMode' :: "'m shifter \<Rightarrow> 'm shifter" where
  "ensureTableMode' s =
     (let s1 = s\<lparr>isTableMode' := True\<rparr>;
          s2 = s1\<lparr>walkers' := array_set (walkers' s1) GROUP TableWalker\<rparr>;
          s3 = s2\<lparr>currentWalkerIndex' := Some GROUP\<rparr>
      in s3\<lparr>currentWalker' := array_get (walkers' s3) (currentWalkerIndex' s3)\<rparr>)"

definition ensureNotTableMode :: "'m shifter \<Rightarrow> 'm shifter" where
  "ensureNotTableMode s =
     (let s1 = s\<lparr>isTableMode' := False\<rparr>;
          s2 = s1\<lparr>walkers' := array_set (walkers' s1) GROUP GroupWalker\<rparr>
      in s2\<lparr>currentWalker' := array_get (walkers' s2) (currentWalkerIndex' s2)\<rparr>)"

text \<open>
  \<open>kwargs || {force: false, fromTop: false}\<close>: the argument may be left out, and then
  both options are false.
\<close>

definition kwargs_or_default :: "kwargs option \<Rightarrow> kwargs" where
  "kwargs_or_default kwargs0 =
     (case kwargs0 of
        None \<Rightarrow> \<lparr>force = False, fromTop = False\<rparr>
      | Some k \<Rightarrow> k)"

definition tryEnterTable ::
  "'m env \<Rightarrow> 'm shifter \<Rightarrow> selection \<Rightarrow> kwargs option
     \<Rightarrow> (error + selection option) \<times> 'm shifter" where
  "tryEnterTable env s sel kwargs0 =
     (let kwargs = kwargs_or_default kwargs0
      in if isTableMode' s then (Inr None, s)
         else (case DomUtil_getContainingTable env (start_node sel) of
                 None \<Rightarrow> (Inr None, s)
               | Some tableNode \<Rightarrow>
                   if force kwargs \<or> \<not> DomUtil_isLayoutTable env tableNode
                   then (let s1 = ensureTableMode' s
                         in if fromTop kwargs
                            then (Inr (TableWalker_goToFirstCell env sel), s1)
                            else (sync env s1 (Some sel), s1))
                   else (Inr None, s)))"

text \<open>
  \<open>syncToPageBeginning\<close>: of \<open>kwargs\<close> only the option \<open>reversed\<close> is kept, as \<open>rv\<close>.
\<close>

definition syncToPageBeginning ::
  "'m env \<Rightarrow> 'm shifter \<Rightarrow> bool \<Rightarrow> (error + selection) \<times> 'm shifter" where
  "syncToPageBeginning env s rv =
     (let s1 = ensureNotTableMode s
      in (case currentWalker' s1 of
            None \<Rightarrow> (Inl TypeError, s1)
          | Some w \<Rightarrow> (Inr (Walker_syncToPageBeginning env w rv), s1)))"

text \<open>
  \<open>syncNode\<close> asks the group walker and the object walker, then shifts to one of the
  two granularities and syncs there; the result of that last sync is dropped, but a
  TypeError from it is not.
\<close>

definition syncNode ::
  "'m env \<Rightarrow> 'm shifter \<Rightarrow> selection \<Rightarrow> (error + selection option) \<times> 'm shifter" where
  "syncNode env s sel =
     (let group = Walker_sync env GroupWalker (Some sel);
          object = Walker_sync env ObjectWalker (Some sel)
      in if (case group of
               None \<Rightarrow> False
             | Some g \<Rightarrow> DomUtil_countFocusableDescendants env (start_node g) > 1)
         then (let s1 = setGranularity (Some OBJECT) s
               in (case sync env s1 object of
                     Inl e \<Rightarrow> (Inl e, s1)
                   | Inr _ \<Rightarrow> (Inr object, s1)))
         else (let s1 = setGranularity (Some GROUP) s
               in (case sync env s1 group of
                     Inl e \<Rightarrow> (Inl e, s1)
                   | Inr _ \<Rightarrow> (Inr group, s1))))"

subsection \<open>Math mode\<close>

definition isMathMode :: "'m shifter \<Rightarrow> bool" where
  "isMathMode s = (isMathMode' s \<and> currentWalker' s = Some MathWalker)"

definition cycleDomain :: "'m env \<Rightarrow> 'm shifter \<Rightarrow> 'm shifter" where
  "cycleDomain env s = s\<lparr>mathWalker' := MathWalker_cycleDomain env (mathWalker' s)\<rparr>"

definition cycleTraversalMode :: "'m env \<Rightarrow> 'm shifter \<Rightarrow> 'm shifter" where
  "cycleTraversalMode env s =
     s\<lparr>mathWalker' := MathWalker_cycleTraversalMode env (mathWalker' s)\<rparr>"

definition toggleExplore :: "'m env \<Rightarrow> 'm shifter \<Rightarrow> 'm shifter" where
  "toggleExplore env s = s\<lparr>mathWalker' := MathWalker_toggleExplore env (mathWalker' s)\<rparr>"

definition isInMath :: "'m env \<Rightarrow> selection \<Rightarrow> bool" where
  "isInMath env sel = MathWalker_isInMath env sel"

definition ensureNotMathMode :: "'m env \<Rightarrow> 'm shifter \<Rightarrow> 'm shifter" where
  "ensureNotMathMode env s =
     (let s1 = s\<lparr>isMathMode' := False\<rparr>;
          s2 = s1\<lparr>mathWalker' := MathWalker_reset env (mathWalker' s1)\<rparr>;
          s3 = s2\<lparr>walkers' := array_set (walkers' s2) GROUP GroupWalker\<rparr>
      in s3\<lparr>currentWalker' := array_get (walkers' s3) (currentWalkerIndex' s3)\<rparr>)"

definition ensureMathMode' :: "'m env \<Rightarrow> 'm shifter \<Rightarrow> 'm shifter" where
  "ensureMathMode' env s =
     (let s1 = s\<lparr>isMathMode' := True\<rparr>;
          s2 = s1\<lparr>walkers' := array_set (walkers' s1) GROUP MathWalker\<rparr>;
          s3 = s2\<lparr>mathWalker' :=
                   MathWalker_setSavedGranularity env (currentWalkerIndex' s2) (mathWalker' s2)\<rparr>;
          s4 = s3\<lparr>currentWalkerIndex' := Some GROUP\<rparr>
      in s4\<lparr>currentWalker' := array_get (walkers' s4) (currentWalkerIndex' s4)\<rparr>)"

definition tryEnterMath ::
  "'m env \<Rightarrow> 'm shifter \<Rightarrow> selection \<Rightarrow> (error + selection option) \<times> 'm shifter" where
  "tryEnterMath env s sel =
     (if isMathMode' s then (Inr None, s)
      else (case DomUtil_getContainingMath env (start_node sel) of
              None \<Rightarrow> (Inr None, s)
            | Some mathNode \<Rightarrow>
                (let s1 = ensureMathMode' env s in (sync env s1 (Some sel), s1))))"

text \<open>
  The loop of \<open>tryExitMath\<close>: step to the next leaf in the direction \<open>rv\<close>, at least
  once, until there is no leaf or the leaf has content. The tree queries are the
  environment's, so the loop need not end: \<open>None\<close> is the loop that runs forever.
\<close>

partial_function (option) nextContentLeaf :: "'m env \<Rightarrow> node \<Rightarrow> bool \<Rightarrow> node option option" where
  "nextContentLeaf env node rv =
     (case DomUtil_directedNextLeafNode env node rv of
        None \<Rightarrow> Some None
      | Some n \<Rightarrow>
          if DomUtil_hasContent env n then Some (Some n)
          else nextContentLeaf env n rv)"

declare nextContentLeaf.simps [code]

definition tryExitMath ::
  "'m env \<Rightarrow> 'm shifter \<Rightarrow> selection \<Rightarrow> bool
     \<Rightarrow> ((error + selection option) \<times> 'm shifter) option" where
  "tryExitMath env s sel rv =
     (let s1 = ensureNotMathMode env s
      in if isInMath env sel
         then (case DomUtil_getContainingMath env (start_node sel) of
                 None \<Rightarrow> Some (Inr None, s1)
               | Some node \<Rightarrow>
                   (case nextContentLeaf env node rv of
                      None \<Rightarrow> None
                    | Some leaf \<Rightarrow>
                        (case CursorSelection_fromNode leaf of
                           None \<Rightarrow> Some (Inr None, s1)
                         | Some sel' \<Rightarrow>
                             Some (sync env s1 (Some (setReversed rv sel')), s1))))
         else Some (Inr None, s1))"

subsection \<open>Storing and restoring\<close>

text \<open>
  A store is an object with string keys. \<open>storeOn\<close> writes the key \<open>granularity\<close>;
  \<open>readFrom\<close> reads it, and reads \<open>undefined\<close> from a store without it.
\<close>

type_synonym store = "string \<rightharpoonup> number"

definition store_get :: "store \<Rightarrow> string \<Rightarrow> number" where
  "store_get st k = (case st k of None \<Rightarrow> None | Some v \<Rightarrow> v)"

definition storeOn :: "'m shifter \<Rightarrow> store \<Rightarrow> store \<times> 'm shifter" where
  "storeOn s st =
     (let (g, s1) = getGranularity s in (st(''granularity'' \<mapsto> g), s1))"

definition readFrom :: "store \<Rightarrow> 'm shifter \<Rightarrow> 'm shifter" where
  "readFrom st s = setGranularity (store_get st ''granularity'') s"

subsection \<open>Sequences of public calls\<close>

text \<open>
  The public methods as commands. \<open>Op_forward\<close> stands for every method that leaves
  the state of the shifter alone whatever it returns or throws: \<open>next\<close>, \<open>sync\<close>,
  \<open>act\<close>, \<open>findNext\<close>, \<open>getDescription\<close>, \<open>getBraille\<close>, \<open>getGranularityMsg\<close>, the
  forwards to the table walker, \<open>getDomainMsg\<close>, \<open>getTraversalModeMsg\<close>, \<open>isInMath\<close>
  and the three queries \<open>isSubnavigating\<close>, \<open>isTableMode\<close>, \<open>isMathMode\<close>.
\<close>

datatype op =
  Op_forward
  | Op_syncToPageBeginning bool
  | Op_syncNode selection
  | Op_makeMoreGranular
  | Op_makeLessGranular
  | Op_setGranularity number
  | Op_getGranularity
  | Op_ensureSubnavigating
  | Op_ensureNotSubnavigating
  | Op_tryEnterTable selection "kwargs option"
  | Op_ensureNotTableMode
  | Op_cycleDomain
  | Op_cycleTraversalMode
  | Op_toggleExplore
  | Op_tryEnterMath selection
  | Op_tryExitMath selection bool
  | Op_ensureNotMathMode
  | Op_storeOn store
  | Op_readFrom store

text \<open>
  The state after one call, whether the call returned or threw; \<open>None\<close> when the call
  does not come back.
\<close>

fun step :: "'m env \<Rightarrow> op \<Rightarrow> 'm shifter \<Rightarrow> 'm shifter option" where
  "step env Op_forward s = Some s"
| "step env (Op_syncToPageBeginning rv) s = Some (snd (syncToPageBeginning env s rv))"
| "step env (Op_syncNode sel) s = Some (snd (syncNode env s sel))"
| "step env Op_makeMoreGranular s = Some (makeMoreGranular s)"
| "step env Op_makeLessGranular s = Some (makeLessGranular s)"
| "step env (Op_setGranularity g) s = Some (setGranularity g s)"
| "step env Op_getGranularity s = Some (snd (getGranularity s))"
| "step env Op_ensureSubnavigating s = Some (ensureSubnavigating s)"
| "step env Op_ensureNotSubnavigating s = Some (ensureNotSubnavigating s)"
| "step env (Op_tryEnterTable sel kw) s = Some (snd (tryEnterTable env s sel kw))"
| "step env Op_ensureNotTableMode s = Some (ensureNotTableMode s)"
| "step env Op_cycleDomain s = Some (cycleDomain env s)"
| "step env Op_cycleTraversalMode s = Some (cycleTraversalMode env s)"
| "step env Op_toggleExplore s = Some (toggleExplore env s)"
| "step env (Op_tryEnterMath sel) s = Some (snd (tryEnterMath env s sel))"
| "step env (Op_tryExitMath sel rv) s = map_option snd (tryExitMath env s sel rv)"
| "step env Op_ensureNotMathMode s = Some (ensureNotMathMode env s)"
| "step env (Op_storeOn st) s = Some (snd (storeOn s st))"
| "step env (Op_readFrom st) s = Some (readFrom st s)"

fun run :: "'m env \<Rightarrow> 'm shifter \<Rightarrow> op list \<Rightarrow> 'm shifter option" where
  "run env s [] = Some s"
| "run env s (c # cs) =
     (case step env c s of
        None \<Rightarrow> None
      | Some s' \<Rightarrow> run env s' cs)"

subsection \<open>What holds of every state that the calls reach\<close>

definition slots :: "walker \<Rightarrow> walker option list" where
  "slots g = [Some CharacterWalker, Some WordWalker, Some LineWalker,
              Some SentenceWalker, Some ObjectWalker, Some g, Some VisualWalker]"

text \<open>
  Six slots never change; the GROUP slot holds the group walker, or the table walker
  under a set table flag, or the math walker under a set math flag; and the current
  walker is the one at the current index.
\<close>

definition slots_ok :: "'m shifter \<Rightarrow> bool" where
  "slots_ok s =
     ((walkers' s = slots GroupWalker
       \<or> (walkers' s = slots TableWalker \<and> isTableMode' s)
       \<or> (walkers' s = slots MathWalker \<and> isMathMode' s))
      \<and> currentWalker' s = array_get (walkers' s) (currentWalkerIndex' s))"

text \<open>
  What a caller can see of a state: the four queries, the walker that delegated calls
  go to, and the state of the math walker behind the math forwards. The other
  delegation targets are fixed objects.
\<close>

definition observe :: "'m shifter \<Rightarrow> bool \<times> bool \<times> number \<times> bool \<times> walker option \<times> 'm" where
  "observe s =
     (isTableMode s, isMathMode s, fst (getGranularity s), isSubnavigating s,
      currentWalker' s, mathWalker' s)"

subsection \<open>The leaf walk, as the specification words it\<close>

text \<open>
  \<open>leafPath env rv node xs\<close>: stepping leaf by leaf from \<open>node\<close> in the direction
  \<open>rv\<close> visits exactly the nodes \<open>xs\<close>, in this order.
\<close>

fun leafPath :: "'m env \<Rightarrow> bool \<Rightarrow> node \<Rightarrow> node list \<Rightarrow> bool" where
  "leafPath env rv node [] = True"
| "leafPath env rv node (x # xs) =
     (DomUtil_directedNextLeafNode env node rv = Some x \<and> leafPath env rv x xs)"

definition contentless :: "'m env \<Rightarrow> node list \<Rightarrow> bool" where
  "contentless env xs = list_all (\<lambda>x. \<not> DomUtil_hasContent env x) xs"

text \<open>
  \<open>walk_ends env rv node skipped r\<close>: the walk from \<open>node\<close> passes the leaves
  \<open>skipped\<close>, none of which has content, and the step after them gives \<open>r\<close>: a leaf
  with content, or no leaf at all.
\<close>

definition walk_ends :: "'m env \<Rightarrow> bool \<Rightarrow> node \<Rightarrow> node list \<Rightarrow> node option \<Rightarrow> bool" where
  "walk_ends env rv node skipped r =
     (leafPath env rv node skipped \<and> contentless env skipped
      \<and> DomUtil_directedNextLeafNode env (last (node # skipped)) rv = r
      \<and> (case r of None \<Rightarrow> True | Some n \<Rightarrow> DomUtil_hasContent env n))"

subsection \<open>A small page\<close>

text \<open>
  A page to run the shifter on. Node 1 is a text leaf; node 2 is a data table with the
  cell leaf 3 and the math expression 4, whose leaf is 5; node 6 is an empty leaf and
  node 7 a text leaf after the table; node 8 is a layout table with the leaf 9. The
  leaves in document order are 1, 3, 5, 6, 7, 9. Every walker syncs to the selection it
  is given. The math walker's state is its domain, its traversal mode, its explore
  flag and the saved granularity, and \<open>reset\<close> puts back the state of a new walker.
\<close>

type_synonym page_math = "nat \<times> nat \<times> bool \<times> number"

definition page_containingTable :: "node \<Rightarrow> node option" where
  "page_containingTable n =
     (if n = 2 \<or> n = 3 \<or> n = 4 \<or> n = 5 then Some 2
      else if n = 8 \<or> n = 9 then Some 8 else None)"

definition page_containingMath :: "node \<Rightarrow> node option" where
  "page_containingMath n = (if n = 4 \<or> n = 5 then Some 4 else None)"

definition page_nextLeaf :: "node \<Rightarrow> bool \<Rightarrow> node option" where
  "page_nextLeaf n rv =
     (if rv
      then (if n = 3 \<or> n = 2 then Some 1 else if n = 5 \<or> n = 4 then Some 3
            else if n = 6 then Some 5 else if n = 7 then Some 6
            else if n = 9 \<or> n = 8 then Some 7 else None)
      else (if n = 1 then Some 3 else if n = 3 then Some 5
            else if n = 5 \<or> n = 4 \<or> n = 2 then Some 6
            else if n = 6 then Some 7 else if n = 7 then Some 9 else None))"

definition at_node :: "node \<Rightarrow> selection" where
  "at_node n = \<lparr>start_node = n, end_node = n, reversed = False\<rparr>"

definition page :: "page_math env" where
  "page =
     \<lparr>DomUtil_getContainingTable = page_containingTable,
      DomUtil_isLayoutTable = (\<lambda>n. n = 8),
      DomUtil_getContainingMath = page_containingMath,
      DomUtil_directedNextLeafNode = page_nextLeaf,
      DomUtil_hasContent = (\<lambda>n. n = 1 \<or> n = 3 \<or> n = 5 \<or> n = 7 \<or> n = 9),
      DomUtil_countFocusableDescendants = (\<lambda>n. 0),
      Walker_next = (\<lambda>w sel. None),
      Walker_sync = (\<lambda>w sel. sel),
      Walker_act = (\<lambda>w sel. False),
      Walker_syncToPageBeginning = (\<lambda>w rv. if rv then at_node 9 else at_node 1),
      TableWalker_goToFirstCell = (\<lambda>sel. Some (at_node 3)),
      MathWalker_isInMath = (\<lambda>sel. page_containingMath (start_node sel) \<noteq> None),
      MathWalker_new = (0, 0, False, None),
      MathWalker_reset = (\<lambda>m. (0, 0, False, None)),
      MathWalker_cycleDomain = (\<lambda>(d, t, e, g). ((d + 1) mod 3, t, e, g)),
      MathWalker_cycleTraversalMode = (\<lambda>(d, t, e, g). (d, (t + 1) mod 2, e, g)),
      MathWalker_toggleExplore = (\<lambda>(d, t, e, g). (d, t, \<not> e, g)),
      MathWalker_setSavedGranularity = (\<lambda>g' (d, t, e, g). (d, t, e, g'))\<rparr>"

text \<open>States of the shifter on this page.\<close>

definition page_in_math :: "page_math shifter" where
  "page_in_math = snd (tryEnterMath page (NavigationShifter page) (at_node 5))"

definition page_in_table :: "page_math shifter" where
  "page_in_table = snd (tryEnterTable page (NavigationShifter page) (at_node 3) None)"

definition page_subnavigating :: "page_math shifter" where
  "page_subnavigating = ensureSubnavigating (NavigationShifter page)"

definition page_at_CHARACTER :: "page_math shifter" where
  "page_at_CHARACTER = setGranularity (Some CHARACTER) (NavigationShifter page)"

definition page_stale_table :: "page_math shifter" where
  "page_stale_table = setGranularity (Some WORD) page_in_table"

definition page_at_WORD :: "page_math shifter" where
  "page_at_WORD = setGranularity (Some WORD) (NavigationShifter page)"

definition page_math_then_table :: "page_math shifter" where
  "page_math_then_table = snd (tryEnterTable page page_in_math (at_node 5) None)"

text \<open>The same page with a table walker that finds no cell to sync to.\<close>

definition page_no_cell :: "page_math env" where
  "page_no_cell =
     page\<lparr>Walker_sync := (\<lambda>w sel. if w = TableWalker then None else sel)\<rparr>"

section \<open>Properties\<close>

subsection \<open>Unfolding the granularity operations\<close>

lemma ensureNotSubnavigating_eq:
  "ensureNotSubnavigating s =
     (if isSubnavigating' s
      then s\<lparr>isSubnavigating' := False,
             currentWalkerIndex' :=
               Math_min (js_plus (currentWalkerIndex' s) 1) (int (length (walkers' s)) - 1),
             currentWalker' :=
               array_get (walkers' s)
                 (Math_min (js_plus (currentWalkerIndex' s) 1) (int (length (walkers' s)) - 1))\<rparr>
      else s)"
  by (simp add: ensureNotSubnavigating.simps [of s]
        makeLessGranular.simps [of "s\<lparr>isSubnavigating' := False\<rparr>"]
        ensureNotSubnavigating.simps [of "s\<lparr>isSubnavigating' := False\<rparr>"] Let_def)

lemmas granularity_defs =
  makeLessGranular.simps makeMoreGranular_def setGranularity_def ensureSubnavigating_def
  getGranularity_def isSubnavigating_def ensureNotSubnavigating_eq Let_def

subsection \<open>The walker array and the reachable states\<close>

lemma array_set_slots: "array_set (slots g) GROUP w = slots w"
  by (simp add: array_set_def slots_def GROUP_def)

lemma array_get_set_GROUP: "array_get (array_set ws GROUP w) (Some GROUP) = Some w"
  by (simp add: array_set_def array_get_def GROUP_def nth_append)

lemma slots_ok_ensureNotSubnavigating: "slots_ok s \<Longrightarrow> slots_ok (ensureNotSubnavigating s)"
  by (auto simp: slots_ok_def ensureNotSubnavigating_eq)

lemma slots_ok_makeLessGranular: "slots_ok s \<Longrightarrow> slots_ok (makeLessGranular s)"
  by (auto simp: slots_ok_def granularity_defs)

lemma slots_ok_makeMoreGranular: "slots_ok s \<Longrightarrow> slots_ok (makeMoreGranular s)"
  by (auto simp: slots_ok_def granularity_defs)

lemma slots_ok_setGranularity: "slots_ok s \<Longrightarrow> slots_ok (setGranularity g s)"
  by (auto simp: slots_ok_def granularity_defs)

lemma slots_ok_ensureSubnavigating: "slots_ok s \<Longrightarrow> slots_ok (ensureSubnavigating s)"
  by (auto simp: slots_ok_def granularity_defs)

lemma slots_ok_getGranularity: "slots_ok s \<Longrightarrow> slots_ok (snd (getGranularity s))"
  by (auto simp: slots_ok_def granularity_defs)

lemma slots_ok_ensureTableMode: "slots_ok s \<Longrightarrow> slots_ok (ensureTableMode' s)"
  by (auto simp: slots_ok_def ensureTableMode'_def Let_def array_set_slots array_get_set_GROUP)

lemma slots_ok_ensureNotTableMode: "slots_ok s \<Longrightarrow> slots_ok (ensureNotTableMode s)"
  by (auto simp: slots_ok_def ensureNotTableMode_def Let_def array_set_slots)

lemma slots_ok_ensureMathMode: "slots_ok s \<Longrightarrow> slots_ok (ensureMathMode' env s)"
  by (auto simp: slots_ok_def ensureMathMode'_def Let_def array_set_slots array_get_set_GROUP)

lemma slots_ok_ensureNotMathMode: "slots_ok s \<Longrightarrow> slots_ok (ensureNotMathMode env s)"
  by (auto simp: slots_ok_def ensureNotMathMode_def Let_def array_set_slots)

lemma slots_ok_tryEnterTable: "slots_ok s \<Longrightarrow> slots_ok (snd (tryEnterTable env s sel kw))"
  by (auto simp: tryEnterTable_def Let_def slots_ok_ensureTableMode split: option.splits)

lemma slots_ok_tryEnterMath: "slots_ok s \<Longrightarrow> slots_ok (snd (tryEnterMath env s sel))"
  by (auto simp: tryEnterMath_def Let_def slots_ok_ensureMathMode split: option.splits)

lemma tryExitMath_state:
  "tryExitMath env s sel rv = Some (r, s') \<Longrightarrow> s' = ensureNotMathMode env s"
  by (auto simp: tryExitMath_def Let_def split: option.splits if_splits)

lemma slots_ok_syncToPageBeginning:
  "slots_ok s \<Longrightarrow> slots_ok (snd (syncToPageBeginning env s rv))"
  by (auto simp: syncToPageBeginning_def Let_def slots_ok_ensureNotTableMode split: option.splits)

lemma slots_ok_syncNode: "slots_ok s \<Longrightarrow> slots_ok (snd (syncNode env s sel))"
  by (auto simp: syncNode_def Let_def slots_ok_setGranularity split: option.splits sum.splits)

lemma slots_ok_mathWalker_update: "slots_ok (s\<lparr>mathWalker' := m\<rparr>) = slots_ok s"
  by (simp add: slots_ok_def)

lemma slots_ok_storeOn: "slots_ok s \<Longrightarrow> slots_ok (snd (storeOn s st))"
  using slots_ok_getGranularity [of s] by (auto simp: storeOn_def split: prod.splits)

lemma slots_ok_step: "slots_ok s \<Longrightarrow> step env c s = Some s' \<Longrightarrow> slots_ok s'"
proof (cases c)
  case (Op_tryExitMath sel rv)
  assume a: "slots_ok s" "step env c s = Some s'"
  with Op_tryExitMath obtain r where "tryExitMath env s sel rv = Some (r, s')"
    by auto
  then have "s' = ensureNotMathMode env s" by (rule tryExitMath_state)
  with a show ?thesis by (simp add: slots_ok_ensureNotMathMode)
qed (auto simp: slots_ok_syncToPageBeginning slots_ok_syncNode slots_ok_makeMoreGranular
      slots_ok_makeLessGranular slots_ok_setGranularity slots_ok_getGranularity
      slots_ok_ensureSubnavigating slots_ok_ensureNotSubnavigating slots_ok_tryEnterTable
      slots_ok_ensureNotTableMode slots_ok_tryEnterMath slots_ok_ensureNotMathMode
      slots_ok_storeOn slots_ok_mathWalker_update cycleDomain_def cycleTraversalMode_def
      toggleExplore_def readFrom_def)

lemma slots_ok_reset: "slots_ok (reset' env)"
  by (simp add: slots_ok_def reset'_def slots_def array_get_def)

lemma slots_ok_run: "slots_ok s \<Longrightarrow> run env s cs = Some s' \<Longrightarrow> slots_ok s'"
proof (induction cs arbitrary: s)
  case Nil
  then show ?case by simp
next
  case (Cons c cs)
  then show ?case by (auto split: option.splits dest: slots_ok_step)
qed


lemma slots_ok_reachable:
  "run env (NavigationShifter env) cs = Some s \<Longrightarrow> slots_ok s"
  using slots_ok_run [OF slots_ok_reset] by (simp add: NavigationShifter_def)

lemma int_below_7: "0 \<le> (k::int) \<Longrightarrow> k < 7 \<Longrightarrow> k = 0 \<or> k = 1 \<or> k = 2 \<or> k = 3 \<or> k = 4 \<or> k = 5 \<or> k = 6"
  by arith

lemma array_get_slots_other:
  "i \<noteq> Some GROUP \<Longrightarrow> array_get (slots g) i = array_get (slots g') i"
proof (cases i)
  case None
  then show ?thesis by (simp add: array_get_def)
next
  case (Some k)
  assume "i \<noteq> Some GROUP"
  with Some have k: "k \<noteq> 5" by (simp add: GROUP_def)
  show ?thesis
  proof (cases "0 \<le> k \<and> k < 7")
    case True
    with k int_below_7 [of k] have "k = 0 \<or> k = 1 \<or> k = 2 \<or> k = 3 \<or> k = 4 \<or> k = 6"
      by blast
    with Some show ?thesis
      by (auto simp: array_get_def slots_def)
  next
    case False
    with Some show ?thesis by (auto simp: array_get_def slots_def)
  qed
qed

lemma array_get_slots_GROUP: "array_get (slots g) (Some GROUP) = Some g"
  by (simp add: array_get_def slots_def GROUP_def)

lemma length_slots: "length (slots g) = 7"
  by (simp add: slots_def)

lemma fst_getGranularity:
  "fst (getGranularity s) =
     (if isSubnavigating' s
      then Math_min (js_plus (currentWalkerIndex' s) 1) (int (length (walkers' s)) - 1)
      else currentWalkerIndex' s)"
  by (simp add: granularity_defs)

lemma array_get_slots_not_TableWalker:
  "i \<noteq> Some GROUP \<Longrightarrow> array_get (slots g) i \<noteq> Some TableWalker"
proof -
  assume a: "i \<noteq> Some GROUP"
  have "array_get (slots GroupWalker) i \<noteq> Some TableWalker"
  proof (cases i)
    case None
    then show ?thesis by (simp add: array_get_def)
  next
    case (Some k)
    show ?thesis
    proof (cases "0 \<le> k \<and> k < 7")
      case True
      with int_below_7 [of k] have "k = 0 \<or> k = 1 \<or> k = 2 \<or> k = 3 \<or> k = 4 \<or> k = 5 \<or> k = 6"
        by blast
      with Some show ?thesis by (auto simp: array_get_def slots_def)
    next
      case False
      with Some show ?thesis by (auto simp: array_get_def slots_def)
    qed
  qed
  with a show ?thesis using array_get_slots_other [of i g GroupWalker] by simp
qed

lemma slots_ok_length: "slots_ok s \<Longrightarrow> length (walkers' s) = 7"
  by (auto simp: slots_ok_def length_slots)

lemma slots_ok_current_unchanged:
  assumes ok: "slots_ok s" and t: "\<not> isTableMode s" and m: "\<not> isMathMode s"
  shows "array_get (slots GroupWalker) (currentWalkerIndex' s) = currentWalker' s"
proof (cases "currentWalkerIndex' s = Some GROUP")
  case True
  with ok t m show ?thesis
    by (auto simp: slots_ok_def isTableMode_def isMathMode_def array_get_slots_GROUP)
next
  case False
  from ok obtain g where "walkers' s = slots g"
    by (auto simp: slots_ok_def)
  with ok have "currentWalker' s = array_get (slots g) (currentWalkerIndex' s)"
    by (simp add: slots_ok_def)
  with False show ?thesis
    using array_get_slots_other [of "currentWalkerIndex' s" GroupWalker g] by simp
qed

lemma ensureNotTableMode_fields:
  "slots_ok s \<Longrightarrow>
     walkers' (ensureNotTableMode s) = slots GroupWalker
     \<and> currentWalker' (ensureNotTableMode s) = array_get (slots GroupWalker) (currentWalkerIndex' s)
     \<and> isTableMode' (ensureNotTableMode s) = False
     \<and> isMathMode' (ensureNotTableMode s) = isMathMode' s
     \<and> isSubnavigating' (ensureNotTableMode s) = isSubnavigating' s
     \<and> currentWalkerIndex' (ensureNotTableMode s) = currentWalkerIndex' s
     \<and> mathWalker' (ensureNotTableMode s) = mathWalker' s"
  by (auto simp: slots_ok_def ensureNotTableMode_def Let_def array_set_slots)

subsection \<open>Table mode and math mode exclude each other\<close>

text \<open>
  Claim C1. After any finite sequence of public calls on a new shifter,
  \<open>isTableMode()\<close> and \<open>isMathMode()\<close> are not both true: each also tests that the
  current walker is its own walker, and the table walker and the math walker are two
  objects.
\<close>

theorem modes_exclusive:
  "run env (NavigationShifter env) cs = Some s \<Longrightarrow> \<not> (isTableMode s \<and> isMathMode s)"
  by (auto simp: isTableMode_def isMathMode_def)

text \<open>
  On the page, entering math and then the table around it sets both flags; the table
  walker owns the GROUP slot, and only \<open>isTableMode()\<close> answers true.
\<close>

theorem modes_exclusive_witness:
  "run page (NavigationShifter page)
     [Op_tryEnterMath (at_node 5), Op_tryEnterTable (at_node 5) None]
     = Some page_math_then_table
   \<and> isMathMode' page_math_then_table \<and> isTableMode' page_math_then_table
   \<and> \<not> (isTableMode page_math_then_table \<and> isMathMode page_math_then_table)"
proof -
  have h: "run page (NavigationShifter page)
             [Op_tryEnterMath (at_node 5), Op_tryEnterTable (at_node 5) None]
           = Some page_math_then_table"
    by (simp add: page_math_then_table_def page_in_math_def)
  have f: "isMathMode' page_math_then_table" "isTableMode' page_math_then_table"
    by code_simp+
  from modes_exclusive [OF h] h f show ?thesis by blast
qed

subsection \<open>Shifting the granularity cancels subnavigation\<close>

text \<open>
  Claim C8. A call of \<open>setGranularity\<close>, \<open>makeMoreGranular\<close> or \<open>makeLessGranular\<close>
  made while subnavigating first leaves subnavigation: the call does what it does on
  the state that \<open>ensureNotSubnavigating\<close> gives, and \<open>isSubnavigating()\<close> is false
  when it returns, for every state and every argument.
\<close>

theorem granularity_shift_cancels_subnavigation:
  "isSubnavigating s \<Longrightarrow>
     \<not> isSubnavigating (setGranularity g s)
     \<and> \<not> isSubnavigating (makeMoreGranular s)
     \<and> \<not> isSubnavigating (makeLessGranular s)
     \<and> setGranularity g s = setGranularity g (ensureNotSubnavigating s)
     \<and> makeMoreGranular s = makeMoreGranular (ensureNotSubnavigating s)
     \<and> makeLessGranular s = makeLessGranular (ensureNotSubnavigating s)"
  by (simp add: granularity_defs)

theorem granularity_shift_cancels_subnavigation_witness:
  "isSubnavigating page_subnavigating
   \<and> \<not> isSubnavigating (setGranularity (Some WORD) page_subnavigating)
   \<and> \<not> isSubnavigating (makeMoreGranular page_subnavigating)
   \<and> \<not> isSubnavigating (makeLessGranular page_subnavigating)"
proof -
  have h: "isSubnavigating page_subnavigating"
    by code_simp
  from granularity_shift_cancels_subnavigation [OF h, of "Some WORD"] h
  show ?thesis by blast
qed

subsection \<open>Entering and leaving subnavigation\<close>

lemma subnavigation_round_trip_above_CHARACTER:
  "\<not> isSubnavigating s \<Longrightarrow> length (walkers' s) = 7 \<Longrightarrow>
   currentWalkerIndex' s = Some r \<Longrightarrow> 1 \<le> r \<Longrightarrow> r \<le> 6 \<Longrightarrow>
     fst (getGranularity (ensureNotSubnavigating (ensureSubnavigating s))) = Some r"
  by (simp add: granularity_defs Math_min_def Math_max_def js_plus_def js_minus_def)

text \<open>
  Claim C2, at the rank the code misses. From CHARACTER, \<open>ensureSubnavigating\<close>
  cannot go below rank 0 and stays at CHARACTER; \<open>ensureNotSubnavigating\<close> then goes
  one step up all the same, and \<open>getGranularity()\<close> reports WORD, not CHARACTER.
\<close>

theorem subnavigation_round_trip_at_CHARACTER:
  "\<not> isSubnavigating page_at_CHARACTER
   \<and> fst (getGranularity page_at_CHARACTER) = Some CHARACTER
   \<and> fst (getGranularity (ensureNotSubnavigating (ensureSubnavigating page_at_CHARACTER)))
       = Some WORD"
  by code_simp

subsection \<open>Reading the granularity while subnavigating\<close>

lemma getGranularity_baseline_above_CHARACTER:
  "length (walkers' s) = 7 \<Longrightarrow> 1 \<le> r \<Longrightarrow> r \<le> 6 \<Longrightarrow>
     fst (getGranularity (setGranularity (Some r) s)) = Some r
     \<and> snd (getGranularity (setGranularity (Some r) s)) = setGranularity (Some r) s
     \<and> fst (getGranularity (ensureSubnavigating (setGranularity (Some r) s))) = Some r
     \<and> snd (getGranularity (ensureSubnavigating (setGranularity (Some r) s)))
         = ensureSubnavigating (setGranularity (Some r) s)"
  by (simp add: granularity_defs Math_min_def Math_max_def js_plus_def js_minus_def)

text \<open>
  Claim C4, at the rank the code misses. With the granularity set to CHARACTER and
  subnavigation entered, \<open>getGranularity()\<close> leaves the flag and the index as they
  were but returns WORD: leaving subnavigation for the reading steps up from the
  clamped index 0.
\<close>

theorem getGranularity_subnavigating_at_CHARACTER:
  "fst (getGranularity page_at_CHARACTER) = Some CHARACTER
   \<and> isSubnavigating (ensureSubnavigating page_at_CHARACTER)
   \<and> currentWalkerIndex' (ensureSubnavigating page_at_CHARACTER) = Some CHARACTER
   \<and> fst (getGranularity (ensureSubnavigating page_at_CHARACTER)) = Some WORD
   \<and> snd (getGranularity (ensureSubnavigating page_at_CHARACTER))
       = ensureSubnavigating page_at_CHARACTER"
  by code_simp

subsection \<open>Entering a table\<close>

lemma tryEnterTable_enters:
  "\<not> isTableMode' s \<Longrightarrow> DomUtil_getContainingTable env (start_node sel) = Some t \<Longrightarrow>
   force (kwargs_or_default kw) \<or> \<not> DomUtil_isLayoutTable env t \<Longrightarrow>
   snd (tryEnterTable env s sel kw) = ensureTableMode' s"
  by (auto simp: tryEnterTable_def Let_def split: option.splits)

lemma currentWalker_ensureTableMode: "currentWalker' (ensureTableMode' s) = Some TableWalker"
  by (simp add: ensureTableMode'_def Let_def array_get_set_GROUP)

lemma isTableMode_ensureTableMode: "isTableMode (ensureTableMode' s)"
  by (simp add: isTableMode_def currentWalker_ensureTableMode) (simp add: ensureTableMode'_def Let_def)

lemma getGranularity_not_subnavigating:
  "\<not> isSubnavigating' s \<Longrightarrow> getGranularity s = (currentWalkerIndex' s, s)"
  by (simp add: granularity_defs)

text \<open>
  Claim C5, as the code has it. With the table flag clear: for a selection whose
  start node lies in no table, \<open>tryEnterTable\<close> returns null and \<open>isTableMode()\<close>
  stays false; for a selection whose start node lies in a table that is no layout
  table (or in any table under \<open>force\<close>), it returns what the table walker gives
  (\<open>goToFirstCell\<close> under \<open>fromTop\<close>, else \<open>sync\<close>), \<open>isTableMode()\<close> becomes true, and
  if the shifter was not subnavigating, \<open>getGranularity()\<close> reports GROUP.
\<close>

theorem tryEnterTable_outcome:
  "\<not> isTableMode' s \<Longrightarrow>
     (DomUtil_getContainingTable env (start_node sel) = None \<longrightarrow>
        tryEnterTable env s sel kw = (Inr None, s) \<and> \<not> isTableMode s)
     \<and> (\<forall>t. DomUtil_getContainingTable env (start_node sel) = Some t
             \<and> (force (kwargs_or_default kw)
                 \<or> \<not> DomUtil_isLayoutTable env t) \<longrightarrow>
           fst (tryEnterTable env s sel kw) =
             Inr (if fromTop (kwargs_or_default kw)
                  then TableWalker_goToFirstCell env sel
                  else Walker_sync env TableWalker (Some sel))
           \<and> isTableMode (snd (tryEnterTable env s sel kw))
           \<and> (\<not> isSubnavigating s \<longrightarrow>
                fst (getGranularity (snd (tryEnterTable env s sel kw))) = Some GROUP))"
proof (intro conjI impI allI)
  assume a: "\<not> isTableMode' s"
  { assume "DomUtil_getContainingTable env (start_node sel) = None"
    with a show "tryEnterTable env s sel kw = (Inr None, s)"
      by (simp add: tryEnterTable_def)
    from a show "\<not> isTableMode s" by (simp add: isTableMode_def) }
  fix t
  assume b: "DomUtil_getContainingTable env (start_node sel) = Some t
             \<and> (force (kwargs_or_default kw)
                 \<or> \<not> DomUtil_isLayoutTable env t)"
  with a have st: "snd (tryEnterTable env s sel kw) = ensureTableMode' s"
    by (intro tryEnterTable_enters) auto
  from a b show "fst (tryEnterTable env s sel kw) =
             Inr (if fromTop (kwargs_or_default kw)
                  then TableWalker_goToFirstCell env sel
                  else Walker_sync env TableWalker (Some sel))"
    by (auto simp: tryEnterTable_def Let_def sync_def currentWalker_ensureTableMode
          split: option.splits)
  show "isTableMode (snd (tryEnterTable env s sel kw))"
    by (simp add: st isTableMode_ensureTableMode)
  assume "\<not> isSubnavigating s"
  then have "\<not> isSubnavigating' (ensureTableMode' s)"
    by (simp add: isSubnavigating_def ensureTableMode'_def Let_def)
  then show "fst (getGranularity (snd (tryEnterTable env s sel kw))) = Some GROUP"
    by (simp add: st getGranularity_not_subnavigating) (simp add: ensureTableMode'_def Let_def)
qed

theorem tryEnterTable_outcome_witness:
  "\<not> isTableMode' (NavigationShifter page)
   \<and> DomUtil_getContainingTable page (start_node (at_node 1)) = None
   \<and> tryEnterTable page (NavigationShifter page) (at_node 1) None
       = (Inr None, NavigationShifter page)
   \<and> DomUtil_getContainingTable page (start_node (at_node 3)) = Some 2
   \<and> \<not> DomUtil_isLayoutTable page 2
   \<and> \<not> isSubnavigating (NavigationShifter page)
   \<and> fst (tryEnterTable page (NavigationShifter page) (at_node 3) None)
       = Inr (Some (at_node 3))
   \<and> isTableMode (snd (tryEnterTable page (NavigationShifter page) (at_node 3) None))
   \<and> fst (getGranularity (snd (tryEnterTable page (NavigationShifter page) (at_node 3) None)))
       = Some GROUP"
proof -
  have off: "\<not> isTableMode' (NavigationShifter page)"
    by code_simp
  have out: "DomUtil_getContainingTable page (start_node (at_node 1)) = None"
    by code_simp
  have inside: "DomUtil_getContainingTable page (start_node (at_node 3)) = Some 2
                \<and> (force (kwargs_or_default None) \<or> \<not> DomUtil_isLayoutTable page 2)"
    by code_simp
  have data: "\<not> DomUtil_isLayoutTable page 2"
    by code_simp
  have sub: "\<not> isSubnavigating (NavigationShifter page)"
    by code_simp
  have res: "Inr (if fromTop (kwargs_or_default None)
                  then TableWalker_goToFirstCell page (at_node 3)
                  else Walker_sync page TableWalker (Some (at_node 3)))
             = (Inr (Some (at_node 3)) :: error + selection option)"
    by code_simp
  from tryEnterTable_outcome [OF off, of page "at_node 1" None] out
  have one: "tryEnterTable page (NavigationShifter page) (at_node 1) None
             = (Inr None, NavigationShifter page)"
    by blast
  from tryEnterTable_outcome [OF off, of page "at_node 3" None] inside sub
  have two: "fst (tryEnterTable page (NavigationShifter page) (at_node 3) None)
               = Inr (if fromTop (kwargs_or_default None)
                      then TableWalker_goToFirstCell page (at_node 3)
                      else Walker_sync page TableWalker (Some (at_node 3)))
             \<and> isTableMode (snd (tryEnterTable page (NavigationShifter page) (at_node 3) None))
             \<and> fst (getGranularity
                      (snd (tryEnterTable page (NavigationShifter page) (at_node 3) None)))
                 = Some GROUP"
    by blast
  from off out inside data sub one two res show ?thesis
    by simp
qed

text \<open>
  Claim C5 as it is stated fails twice. Entered while subnavigating, the shifter
  keeps the subnavigation flag, and \<open>getGranularity()\<close> reports VISUAL; and with a
  table walker that syncs to nothing, \<open>tryEnterTable\<close> enters table mode and returns
  null.
\<close>

theorem tryEnterTable_outcome_counterexample:
  "\<not> isTableMode' page_subnavigating
   \<and> DomUtil_getContainingTable page (start_node (at_node 3)) = Some 2
   \<and> \<not> DomUtil_isLayoutTable page 2
   \<and> fst (tryEnterTable page page_subnavigating (at_node 3) None) = Inr (Some (at_node 3))
   \<and> isTableMode (snd (tryEnterTable page page_subnavigating (at_node 3) None))
   \<and> fst (getGranularity (snd (tryEnterTable page page_subnavigating (at_node 3) None)))
       = Some VISUAL
   \<and> \<not> isTableMode' (NavigationShifter page_no_cell)
   \<and> DomUtil_getContainingTable page_no_cell (start_node (at_node 3)) = Some 2
   \<and> \<not> DomUtil_isLayoutTable page_no_cell 2
   \<and> fst (tryEnterTable page_no_cell (NavigationShifter page_no_cell) (at_node 3) None)
       = Inr None
   \<and> isTableMode (snd (tryEnterTable page_no_cell (NavigationShifter page_no_cell)
                          (at_node 3) None))"
  by code_simp

subsection \<open>Forcing table mode off\<close>

text \<open>
  Claim C3, as the code has it. In a state that public calls reach and in which
  neither \<open>isTableMode()\<close> nor \<open>isMathMode()\<close> holds, \<open>ensureNotTableMode()\<close> changes
  nothing a caller can see: the four queries, the walker that delegated calls go to
  and the math walker's state stay as they were. If the two flags are clear as
  well, the state does not change at all.
\<close>

theorem ensureNotTableMode_frame:
  assumes reach: "run env (NavigationShifter env) cs = Some s"
    and t: "\<not> isTableMode s" and m: "\<not> isMathMode s"
  shows "observe (ensureNotTableMode s) = observe s
         \<and> (\<not> isTableMode' s \<and> \<not> isMathMode' s \<longrightarrow> ensureNotTableMode s = s)"
proof
  from reach have ok: "slots_ok s" by (rule slots_ok_reachable)
  note f = ensureNotTableMode_fields [OF ok]
  note c = slots_ok_current_unchanged [OF ok t m]
  from f c t m show "observe (ensureNotTableMode s) = observe s"
    by (simp add: observe_def isTableMode_def isMathMode_def isSubnavigating_def
          fst_getGranularity slots_ok_length [OF ok] length_slots)
  show "\<not> isTableMode' s \<and> \<not> isMathMode' s \<longrightarrow> ensureNotTableMode s = s"
  proof
    assume flags: "\<not> isTableMode' s \<and> \<not> isMathMode' s"
    with ok have "walkers' s = slots GroupWalker"
      by (auto simp: slots_ok_def)
    with f c flags show "ensureNotTableMode s = s"
      by (intro shifter.equality) simp_all
  qed
qed

theorem ensureNotTableMode_frame_witness:
  "run page (NavigationShifter page)
     [Op_tryEnterTable (at_node 3) None, Op_setGranularity (Some WORD)]
     = Some page_stale_table
   \<and> \<not> isTableMode page_stale_table \<and> \<not> isMathMode page_stale_table
   \<and> observe (ensureNotTableMode page_stale_table) = observe page_stale_table
   \<and> run page (NavigationShifter page) [Op_setGranularity (Some WORD)] = Some page_at_WORD
   \<and> \<not> isTableMode' page_at_WORD \<and> \<not> isMathMode' page_at_WORD
   \<and> ensureNotTableMode page_at_WORD = page_at_WORD"
proof -
  have r1: "run page (NavigationShifter page)
              [Op_tryEnterTable (at_node 3) None, Op_setGranularity (Some WORD)]
            = Some page_stale_table"
    by (simp add: page_stale_table_def page_in_table_def)
  have q1: "\<not> isTableMode page_stale_table" "\<not> isMathMode page_stale_table"
    by code_simp+
  have r2: "run page (NavigationShifter page) [Op_setGranularity (Some WORD)]
            = Some page_at_WORD"
    by (simp add: page_at_WORD_def)
  have q2: "\<not> isTableMode page_at_WORD" "\<not> isMathMode page_at_WORD"
    "\<not> isTableMode' page_at_WORD" "\<not> isMathMode' page_at_WORD"
    by code_simp+
  from ensureNotTableMode_frame [OF r1 q1] ensureNotTableMode_frame [OF r2 q2(1,2)] r1 q1 r2 q2
  show ?thesis by blast
qed

text \<open>
  Claim C3 as it is stated fails in math mode: the call puts the group walker into
  the GROUP slot, so \<open>isMathMode()\<close> turns false and delegated calls go to the group
  walker.
\<close>

theorem ensureNotTableMode_frame_counterexample:
  "run page (NavigationShifter page) [Op_tryEnterMath (at_node 5)] = Some page_in_math
   \<and> \<not> isTableMode page_in_math \<and> isMathMode page_in_math
   \<and> \<not> isMathMode (ensureNotTableMode page_in_math)
   \<and> currentWalker' page_in_math = Some MathWalker
   \<and> currentWalker' (ensureNotTableMode page_in_math) = Some GroupWalker"
  by code_simp

subsection \<open>A table flag that outlives table mode\<close>

lemma tryEnterTable_flag_set:
  "\<not> isTableMode' s \<Longrightarrow> isTableMode' (snd (tryEnterTable env s sel kw)) \<Longrightarrow>
     snd (tryEnterTable env s sel kw) = ensureTableMode' s"
  by (auto simp: tryEnterTable_def Let_def split: option.splits if_splits)

lemma tryEnterTable_blocked:
  "isTableMode' s \<Longrightarrow> tryEnterTable env s sel kw = (Inr None, s)"
  by (simp add: tryEnterTable_def)

lemma tryEnterTable_blocked_run:
  "isTableMode' s \<Longrightarrow>
     run env s (map (\<lambda>(sel, kw). Op_tryEnterTable sel kw) calls) = Some s"
  by (induction calls) (auto simp: tryEnterTable_blocked)

lemma setGranularity_fields:
  "walkers' (setGranularity g s) = walkers' s
   \<and> isTableMode' (setGranularity g s) = isTableMode' s
   \<and> isMathMode' (setGranularity g s) = isMathMode' s
   \<and> currentWalkerIndex' (setGranularity g s) = g
   \<and> currentWalker' (setGranularity g s) = array_get (walkers' s) g"
  by (simp add: granularity_defs)

lemma ensureTableMode_fields:
  "slots_ok s \<Longrightarrow>
     walkers' (ensureTableMode' s) = slots TableWalker \<and> isTableMode' (ensureTableMode' s)"
  by (auto simp: slots_ok_def ensureTableMode'_def Let_def array_set_slots)

text \<open>
  Claim C9. After a call of \<open>tryEnterTable\<close> that set the table flag, setting a
  granularity other than GROUP makes \<open>isTableMode()\<close> false while the flag stays
  set: every further \<open>tryEnterTable\<close>, and any run of them, returns null and leaves
  the state as it is, the GROUP slot still holds the table walker, and setting the
  granularity to GROUP makes \<open>isTableMode()\<close> true again.
\<close>

theorem stale_table_flag:
  assumes reach: "run env (NavigationShifter env) cs = Some s0"
    and off: "\<not> isTableMode' s0"
    and enter: "tryEnterTable env s0 sel kw = (r, s1)"
    and on: "isTableMode' s1"
    and g: "g \<noteq> Some GROUP"
  shows "\<not> isTableMode (setGranularity g s1)
         \<and> isTableMode' (setGranularity g s1)
         \<and> (\<forall>sel' kw'. tryEnterTable env (setGranularity g s1) sel' kw'
                          = (Inr None, setGranularity g s1))
         \<and> (\<forall>calls. run env (setGranularity g s1)
                        (map (\<lambda>(sel', kw'). Op_tryEnterTable sel' kw') calls)
                      = Some (setGranularity g s1))
         \<and> array_get (walkers' (setGranularity g s1)) (Some GROUP) = Some TableWalker
         \<and> isTableMode (setGranularity (Some GROUP) (setGranularity g s1))"
proof -
  from reach have ok: "slots_ok s0" by (rule slots_ok_reachable)
  from off enter on have s1: "s1 = ensureTableMode' s0"
    using tryEnterTable_flag_set [of s0 env sel kw] by simp
  note e = ensureTableMode_fields [OF ok, folded s1]
  note f = setGranularity_fields [of g s1]
  note f' = setGranularity_fields [of "Some GROUP" "setGranularity g s1"]
  from e f have flag: "isTableMode' (setGranularity g s1)" by simp
  from e f g have "\<not> isTableMode (setGranularity g s1)"
    by (simp add: isTableMode_def array_get_slots_not_TableWalker)
  moreover from e f have "array_get (walkers' (setGranularity g s1)) (Some GROUP) = Some TableWalker"
    by (simp add: array_get_slots_GROUP)
  moreover from e f f' have "isTableMode (setGranularity (Some GROUP) (setGranularity g s1))"
    by (simp add: isTableMode_def array_get_slots_GROUP)
  ultimately show ?thesis
    using flag tryEnterTable_blocked [OF flag] tryEnterTable_blocked_run [OF flag] by blast
qed

theorem stale_table_flag_witness:
  "run page (NavigationShifter page) [] = Some (NavigationShifter page)
   \<and> \<not> isTableMode' (NavigationShifter page)
   \<and> tryEnterTable page (NavigationShifter page) (at_node 3) None
       = (Inr (Some (at_node 3)), page_in_table)
   \<and> isTableMode' page_in_table
   \<and> \<not> isTableMode (setGranularity (Some WORD) page_in_table)
   \<and> tryEnterTable page (setGranularity (Some WORD) page_in_table) (at_node 9)
         (Some \<lparr>force = True, fromTop = False\<rparr>)
       = (Inr None, setGranularity (Some WORD) page_in_table)
   \<and> isTableMode (setGranularity (Some GROUP) (setGranularity (Some WORD) page_in_table))"
proof -
  have r: "run page (NavigationShifter page) [] = Some (NavigationShifter page)"
    by simp
  have off: "\<not> isTableMode' (NavigationShifter page)"
    by code_simp
  have enter: "tryEnterTable page (NavigationShifter page) (at_node 3) None
               = (Inr (Some (at_node 3)), page_in_table)"
    by code_simp
  have on: "isTableMode' page_in_table"
    by code_simp
  have g: "Some WORD \<noteq> Some GROUP"
    by code_simp
  from stale_table_flag [OF r off enter on g] r off enter on show ?thesis
    by blast
qed

subsection \<open>Leaving a math expression\<close>

lemma nextContentLeaf_walk:
  "walk_ends env rv node skipped r \<Longrightarrow> nextContentLeaf env node rv = Some r"
proof (induction skipped arbitrary: node)
  case Nil
  then show ?case
    by (subst nextContentLeaf.simps) (auto simp: walk_ends_def split: option.splits)
next
  case (Cons x xs)
  from Cons.prems have "walk_ends env rv x xs r"
    by (auto simp: walk_ends_def contentless_def)
  then have "nextContentLeaf env x rv = Some r" by (rule Cons.IH)
  with Cons.prems show ?case
    by (subst nextContentLeaf.simps) (auto simp: walk_ends_def contentless_def)
qed

lemma walk_ends_step:
  "DomUtil_directedNextLeafNode env node rv = Some n \<Longrightarrow> \<not> DomUtil_hasContent env n \<Longrightarrow>
     walk_ends env rv n skipped r \<Longrightarrow> walk_ends env rv node (n # skipped) r"
  by (auto simp: walk_ends_def contentless_def)

lemma nextContentLeaf_returns:
  assumes "nextContentLeaf env node rv = Some r"
  shows "\<exists>skipped. walk_ends env rv node skipped r"
  using assms
proof (induct rule: nextContentLeaf.raw_induct [rotated 1, consumes 1])
  case (1 loop env node rv r)
  show ?case
  proof (cases "DomUtil_directedNextLeafNode env node rv")
    case None
    with 1(2) have "walk_ends env rv node [] r"
      by (simp add: walk_ends_def contentless_def)
    then show ?thesis ..
  next
    case (Some n)
    show ?thesis
    proof (cases "DomUtil_hasContent env n")
      case True
      with Some 1(2) have r: "r = Some n" by simp
      from Some True have "walk_ends env rv node [] r"
        by (simp add: walk_ends_def contentless_def r)
      then show ?thesis ..
    next
      case False
      with Some 1(2) have "loop env n rv = Some r" by simp
      then obtain skipped where "walk_ends env rv n skipped r"
        using 1(1) by blast
      with Some False have "walk_ends env rv node (n # skipped) r"
        by (intro walk_ends_step)
      then show ?thesis ..
    qed
  qed
qed

lemma not_isMathMode_ensureNotMathMode: "\<not> isMathMode (ensureNotMathMode env s)"
  by (simp add: isMathMode_def ensureNotMathMode_def Let_def)

text \<open>
  Claim C6. Whenever \<open>tryExitMath\<close> returns, the state is the one
  \<open>ensureNotMathMode\<close> gives, and \<open>isMathMode()\<close> is false. For a selection that is
  not in math it returns null. For a selection in math with the containing math node
  \<open>m\<close>: if the walk from \<open>m\<close> in the direction \<open>rv\<close> passes leaves without content
  and then meets a leaf with content, the call returns the sync of the selection at
  that leaf with the direction \<open>rv\<close>; if the walk runs out of leaves, it returns null;
  and it returns only when the walk ends in one of these two ways. The sync is
  answered by the walker at the current index, with the group walker back in the
  GROUP slot.
\<close>

theorem tryExitMath_outcome:
  "(\<forall>r s'. tryExitMath env s sel rv = Some (r, s') \<longrightarrow>
       s' = ensureNotMathMode env s \<and> \<not> isMathMode s')
   \<and> (\<not> isInMath env sel \<longrightarrow>
        tryExitMath env s sel rv = Some (Inr None, ensureNotMathMode env s))
   \<and> (isInMath env sel \<and> DomUtil_getContainingMath env (start_node sel) = None \<longrightarrow>
        tryExitMath env s sel rv = Some (Inr None, ensureNotMathMode env s))
   \<and> (\<forall>m. isInMath env sel \<and> DomUtil_getContainingMath env (start_node sel) = Some m \<longrightarrow>
        (\<forall>skipped leaf. walk_ends env rv m skipped (Some leaf) \<longrightarrow>
           tryExitMath env s sel rv =
             Some (sync env (ensureNotMathMode env s)
                     (Some \<lparr>start_node = leaf, end_node = leaf, reversed = rv\<rparr>),
                   ensureNotMathMode env s))
        \<and> (\<forall>skipped. walk_ends env rv m skipped None \<longrightarrow>
             tryExitMath env s sel rv = Some (Inr None, ensureNotMathMode env s))
        \<and> (\<forall>r s'. tryExitMath env s sel rv = Some (r, s') \<longrightarrow>
             (\<exists>skipped e. walk_ends env rv m skipped e)))
   \<and> (\<forall>x. sync env (ensureNotMathMode env s) x =
          (case array_get (array_set (walkers' s) GROUP GroupWalker) (currentWalkerIndex' s) of
             None \<Rightarrow> Inl TypeError
           | Some w \<Rightarrow> Inr (Walker_sync env w x)))"
proof (intro conjI allI impI)
  fix r s'
  assume "tryExitMath env s sel rv = Some (r, s')"
  then have "s' = ensureNotMathMode env s" by (rule tryExitMath_state)
  then show "s' = ensureNotMathMode env s" "\<not> isMathMode s'"
    by (simp_all add: not_isMathMode_ensureNotMathMode)
next
  assume "\<not> isInMath env sel"
  then show "tryExitMath env s sel rv = Some (Inr None, ensureNotMathMode env s)"
    by (simp add: tryExitMath_def Let_def)
next
  assume "isInMath env sel \<and> DomUtil_getContainingMath env (start_node sel) = None"
  then show "tryExitMath env s sel rv = Some (Inr None, ensureNotMathMode env s)"
    by (simp add: tryExitMath_def Let_def)
next
  fix m skipped leaf
  assume a: "isInMath env sel \<and> DomUtil_getContainingMath env (start_node sel) = Some m"
    and w: "walk_ends env rv m skipped (Some leaf)"
  from w have "nextContentLeaf env m rv = Some (Some leaf)" by (rule nextContentLeaf_walk)
  with a show "tryExitMath env s sel rv =
             Some (sync env (ensureNotMathMode env s)
                     (Some \<lparr>start_node = leaf, end_node = leaf, reversed = rv\<rparr>),
                   ensureNotMathMode env s)"
    by (simp add: tryExitMath_def Let_def CursorSelection_fromNode_def setReversed_def)
next
  fix m skipped
  assume a: "isInMath env sel \<and> DomUtil_getContainingMath env (start_node sel) = Some m"
    and w: "walk_ends env rv m skipped None"
  from w have "nextContentLeaf env m rv = Some None" by (rule nextContentLeaf_walk)
  with a show "tryExitMath env s sel rv = Some (Inr None, ensureNotMathMode env s)"
    by (simp add: tryExitMath_def Let_def CursorSelection_fromNode_def)
next
  fix m r s'
  assume a: "isInMath env sel \<and> DomUtil_getContainingMath env (start_node sel) = Some m"
    and ret: "tryExitMath env s sel rv = Some (r, s')"
  then obtain e where "nextContentLeaf env m rv = Some e"
    by (auto simp: tryExitMath_def Let_def split: option.splits)
  then show "\<exists>skipped e. walk_ends env rv m skipped e"
    using nextContentLeaf_returns by blast
next
  fix x
  show "sync env (ensureNotMathMode env s) x =
          (case array_get (array_set (walkers' s) GROUP GroupWalker) (currentWalkerIndex' s) of
             None \<Rightarrow> Inl TypeError
           | Some w \<Rightarrow> Inr (Walker_sync env w x))"
    by (simp add: sync_def ensureNotMathMode_def Let_def)
qed

theorem tryExitMath_outcome_witness:
  "isMathMode page_in_math
   \<and> isInMath page (at_node 5)
   \<and> DomUtil_getContainingMath page (start_node (at_node 5)) = Some 4
   \<and> walk_ends page False 4 [6] (Some 7)
   \<and> tryExitMath page page_in_math (at_node 5) False
       = Some (Inr (Some \<lparr>start_node = 7, end_node = 7, reversed = False\<rparr>),
               ensureNotMathMode page page_in_math)
   \<and> \<not> isMathMode (ensureNotMathMode page page_in_math)
   \<and> \<not> isInMath page (at_node 1)
   \<and> tryExitMath page page_in_math (at_node 1) True
       = Some (Inr None, ensureNotMathMode page page_in_math)"
proof -
  have m: "isMathMode page_in_math"
    by code_simp
  have a: "isInMath page (at_node 5)
           \<and> DomUtil_getContainingMath page (start_node (at_node 5)) = Some 4"
    by code_simp
  have w: "walk_ends page False 4 [6] (Some 7)"
    by code_simp
  have b: "\<not> isInMath page (at_node 1)"
    by code_simp
  have sy: "sync page (ensureNotMathMode page page_in_math)
              (Some \<lparr>start_node = 7, end_node = 7, reversed = False\<rparr>)
            = Inr (Some \<lparr>start_node = 7, end_node = 7, reversed = False\<rparr>)"
    by code_simp
  from tryExitMath_outcome [of page page_in_math "at_node 5" False] a w
  have one: "tryExitMath page page_in_math (at_node 5) False
             = Some (sync page (ensureNotMathMode page page_in_math)
                       (Some \<lparr>start_node = 7, end_node = 7, reversed = False\<rparr>),
                     ensureNotMathMode page page_in_math)"
    by blast
  from tryExitMath_outcome [of page page_in_math "at_node 5" False] one
  have two: "\<not> isMathMode (ensureNotMathMode page page_in_math)"
    by blast
  from tryExitMath_outcome [of page page_in_math "at_node 1" True] b
  have three: "tryExitMath page page_in_math (at_node 1) True
               = Some (Inr None, ensureNotMathMode page page_in_math)"
    by blast
  from m a w b one two three show ?thesis
    by (simp add: sy)
qed

subsection \<open>Storing and restoring keep the rank only\<close>

text \<open>
  Claim C7. \<open>storeOn\<close> on a new store writes the one key \<open>granularity\<close> with the
  value of \<open>getGranularity()\<close>, and \<open>readFrom\<close> does \<open>setGranularity\<close> with it and
  nothing else: read into a new shifter after the first one has entered table mode,
  it leaves the new shifter out of table mode, math mode and subnavigation, with the
  group walker in the GROUP slot, the stored rank as its index, the walker of that
  rank as its current walker, and a new math walker.
\<close>

theorem storeOn_readFrom_rank_only:
  "tryEnterTable env s0 sel kw = (r, s) \<Longrightarrow> isTableMode s \<Longrightarrow>
     fst (storeOn s Map.empty) = [''granularity'' \<mapsto> fst (getGranularity s)]
     \<and> readFrom (fst (storeOn s Map.empty)) (NavigationShifter env')
         = setGranularity (fst (getGranularity s)) (NavigationShifter env')
     \<and> \<not> isTableMode (readFrom (fst (storeOn s Map.empty)) (NavigationShifter env'))
     \<and> \<not> isMathMode (readFrom (fst (storeOn s Map.empty)) (NavigationShifter env'))
     \<and> \<not> isSubnavigating (readFrom (fst (storeOn s Map.empty)) (NavigationShifter env'))
     \<and> walkers' (readFrom (fst (storeOn s Map.empty)) (NavigationShifter env')) = slots GroupWalker
     \<and> currentWalkerIndex' (readFrom (fst (storeOn s Map.empty)) (NavigationShifter env'))
         = fst (getGranularity s)
     \<and> currentWalker' (readFrom (fst (storeOn s Map.empty)) (NavigationShifter env'))
         = array_get (slots GroupWalker) (fst (getGranularity s))
     \<and> mathWalker' (readFrom (fst (storeOn s Map.empty)) (NavigationShifter env'))
         = MathWalker_new env'"
  by (simp add: storeOn_def readFrom_def store_get_def split: prod.splits)
     (simp add: NavigationShifter_def reset'_def granularity_defs isTableMode_def isMathMode_def slots_def)

theorem storeOn_readFrom_rank_only_witness:
  "tryEnterTable page (NavigationShifter page) (at_node 3) None
     = (Inr (Some (at_node 3)), page_in_table)
   \<and> isTableMode page_in_table
   \<and> fst (storeOn page_in_table Map.empty) = [''granularity'' \<mapsto> Some GROUP]
   \<and> \<not> isTableMode (readFrom (fst (storeOn page_in_table Map.empty)) (NavigationShifter page))
   \<and> currentWalker' (readFrom (fst (storeOn page_in_table Map.empty)) (NavigationShifter page))
       = Some GroupWalker"
proof -
  have enter: "tryEnterTable page (NavigationShifter page) (at_node 3) None
               = (Inr (Some (at_node 3)), page_in_table)"
    by code_simp
  have on: "isTableMode page_in_table"
    by code_simp
  have g: "fst (getGranularity page_in_table) = Some GROUP"
    by code_simp
  have w: "currentWalker' (setGranularity (Some GROUP) (NavigationShifter page))
           = Some GroupWalker"
    by code_simp
  note t = storeOn_readFrom_rank_only [OF enter on, of page]
  from t g have st: "fst (storeOn page_in_table Map.empty) = [''granularity'' \<mapsto> Some GROUP]"
    by simp
  from t have nt: "\<not> isTableMode (readFrom (fst (storeOn page_in_table Map.empty))
                                   (NavigationShifter page))"
    by blast
  from t have "readFrom (fst (storeOn page_in_table Map.empty)) (NavigationShifter page)
               = setGranularity (fst (getGranularity page_in_table)) (NavigationShifter page)"
    by blast
  with g w have cw: "currentWalker' (readFrom (fst (storeOn page_in_table Map.empty))
                                      (NavigationShifter page)) = Some GroupWalker"
    by simp
  from enter on st nt cw show ?thesis
    by blast
qed

subsection \<open>Leaving math mode calls the math walker's reset\<close>

text \<open>
  \<open>ensureNotMathMode\<close> calls \<open>reset()\<close> of the math walker whether math mode is on
  or not, and \<open>tryExitMath\<close> begins with it: afterwards the walker is in the state its
  \<open>reset()\<close> makes of the state before, also right after \<open>cycleDomain\<close>,
  \<open>cycleTraversalMode\<close> or \<open>toggleExplore\<close>. What \<open>reset()\<close> keeps of that state is
  the walker's own matter; its body is not part of the sources at hand.
\<close>

lemma ensureNotMathMode_calls_reset:
  "mathWalker' (ensureNotMathMode env s) = MathWalker_reset env (mathWalker' s)"
  by (simp add: ensureNotMathMode_def Let_def)

lemma tryExitMath_calls_reset:
  "tryExitMath env s sel rv = Some (r, s') \<Longrightarrow>
     mathWalker' s' = MathWalker_reset env (mathWalker' s)"
  using tryExitMath_state [of env s sel rv r s'] by (simp add: ensureNotMathMode_calls_reset)

lemma ensureNotMathMode_after_submode_calls:
  "mathWalker' (ensureNotMathMode env (cycleDomain env s))
     = MathWalker_reset env (MathWalker_cycleDomain env (mathWalker' s))
   \<and> mathWalker' (ensureNotMathMode env (cycleTraversalMode env s))
     = MathWalker_reset env (MathWalker_cycleTraversalMode env (mathWalker' s))
   \<and> mathWalker' (ensureNotMathMode env (toggleExplore env s))
     = MathWalker_reset env (MathWalker_toggleExplore env (mathWalker' s))"
  by (simp add: ensureNotMathMode_calls_reset cycleDomain_def cycleTraversalMode_def
        toggleExplore_def)

end
